theory Spec2Isabelle
  imports Complex_Main
begin

section \<open>HoloCommerce API: the data model of \<^verbatim>\<open>main.py\<close>\<close>

text \<open>
  The program keeps no state of its own: every handler reads and writes the global
  handle \<^verbatim>\<open>db\<close>, which is \<^verbatim>\<open>None\<close> when the document store is not
  available. The handle is passed explicitly here, as a \<open>store option\<close>, and a handler
  that writes returns the new handle next to its result.
\<close>

subsection \<open>Store keys\<close>

text \<open>
  A store key (\<^verbatim>\<open>bson.ObjectId\<close>) is twelve bytes, printed by \<^verbatim>\<open>str\<close> as 24
  lower-case hexadecimal digits. The constructor applied to a string accepts exactly
  the strings of 24 hexadecimal digits and raises on every other string.
\<close>

datatype object_id = Oid string

fun str_oid :: "object_id \<Rightarrow> string" where
  "str_oid (Oid s) = s"

definition hexdigits :: string where
  "hexdigits = ''0123456789abcdefABCDEF''"

definition hex_lower :: "char \<Rightarrow> char" where
  "hex_lower c =
     (if c = CHR ''A'' then CHR ''a'' else if c = CHR ''B'' then CHR ''b''
      else if c = CHR ''C'' then CHR ''c'' else if c = CHR ''D'' then CHR ''d''
      else if c = CHR ''E'' then CHR ''e'' else if c = CHR ''F'' then CHR ''f''
      else c)"

definition ObjectId :: "string \<Rightarrow> object_id option" where
  "ObjectId s =
     (if length s = 24 \<and> list_all (\<lambda>c. c \<in> set hexdigits) s
      then Some (Oid (map hex_lower s)) else None)"

subsection \<open>Documents and responses\<close>

text \<open>
  A stored document is its key \<^verbatim>\<open>_id\<close> together with the remaining fields. A
  response dictionary carries the key as the string \<^verbatim>\<open>id\<close>, or has no such entry
  (the empty cart, and the echo of the payload when there is no store).
\<close>

record 'a doc =
  oid :: object_id
  body :: 'a

record 'a resp =
  rid :: "string option"
  rbody :: 'a

text \<open>\<^verbatim>\<open>doc["id"] = str(doc.pop("_id"))\<close>: every other field passes through.\<close>

definition expose_id :: "'a doc \<Rightarrow> 'a resp" where
  "expose_id d = \<lparr>rid = Some (str_oid (oid d)), rbody = body d\<rparr>"

record cart_item =
  product_id :: string
  quantity :: int

record cart =
  session_id :: string
  items :: "cart_item list"

text \<open>
  The fields of a product, as the seeding code writes them. Prices and ratings are
  Python floats that the program only compares and orders, never computes with; they
  are real numbers here.
\<close>

record product =
  title :: string
  description :: string
  price :: real
  category :: string
  in_stock :: bool
  image_url :: string
  gallery :: "string list"
  colors :: "string list"
  materials :: "string list"
  rating :: real
  featured :: bool
  model_url :: "string option"
  tags :: "string list"

text \<open>The two collections the handlers use: \<^verbatim>\<open>db["product"]\<close> and \<^verbatim>\<open>db["cart"]\<close>.\<close>

record store =
  product_coll :: "product doc list"
  cart_coll :: "cart doc list"

text \<open>
  What a handler can end with instead of a result: the \<^verbatim>\<open>HTTPException\<close> it
  raises itself, the validation error of the framework, and the exceptions of the store
  and its driver, which no handler but \<^verbatim>\<open>get_product\<close> catches.
\<close>

datatype error =
  HTTPException nat string
  | RequestValidationError
  | StoreUnavailable
  | OperationFailure
  | OverflowError

subsection \<open>The operations of the store that the handlers call\<close>

text \<open>\<^verbatim>\<open>find_one(pred)\<close>: the first document of the collection that matches.\<close>

definition find_one :: "('a doc \<Rightarrow> bool) \<Rightarrow> 'a doc list \<Rightarrow> 'a doc option" where
  "find_one P ds = List.find P ds"

text \<open>
  \<^verbatim>\<open>update_one({"_id": k}, {"$set": ...})\<close>: the first document with key \<open>k\<close> has
  its fields changed by \<open>f\<close>; nothing happens when there is none.
\<close>

fun update_one :: "object_id \<Rightarrow> ('a \<Rightarrow> 'a) \<Rightarrow> 'a doc list \<Rightarrow> 'a doc list" where
  "update_one k f [] = []"
| "update_one k f (d # ds) =
     (if oid d = k then d\<lparr>body := f (body d)\<rparr> # ds else d # update_one k f ds)"

text \<open>
  A write can be refused. The driver raises when it cannot encode a value (an integer
  that does not fit in eight bytes gives \<^verbatim>\<open>OverflowError\<close>) and the store can
  reject a document. Which writes are refused is decided by the store and its driver:
  the handlers that write take it as the parameter \<open>wr\<close>, which gives the failure of
  a refused write and \<open>None\<close> for a write that is carried out. A refused write
  changes nothing in the store.
\<close>

datatype write_op =
  SetItems "cart_item list"
  | InsertCart cart

text \<open>
  Modelled from the spec: \<^verbatim>\<open>create_document\<close> of \<^verbatim>\<open>database.py\<close>, which is not
  among the sources. The spec gives the collaborator \<^verbatim>\<open>insert(collection, doc) -> key\<close>
  and says that a write on an unavailable store fails with the collaborator's own
  failure. The key is chosen by the store; it is the second argument here. Only the call
  on the cart collection is modelled.
\<close>

definition create_document ::
  "(write_op \<Rightarrow> error option) \<Rightarrow> object_id \<Rightarrow> store option \<Rightarrow> cart \<Rightarrow>
   (error + string) \<times> store option" where
  "create_document wr k db payload =
     (case db of
        None \<Rightarrow> (Inl StoreUnavailable, None)
      | Some st \<Rightarrow>
          (case wr (InsertCart payload) of
             Some e \<Rightarrow> (Inl e, Some st)
           | None \<Rightarrow>
               (Inr (str_oid k),
                Some (st\<lparr>cart_coll := cart_coll st @ [\<lparr>oid = k, body = payload\<rparr>]\<rparr>))))"

section \<open>Cart API\<close>

text \<open>\<^verbatim>\<open>get_cart\<close> (lines 249 to 257). The function has no raising branch.\<close>

definition get_cart :: "store option \<Rightarrow> string \<Rightarrow> cart resp" where
  "get_cart db sid =
     (case db of
        None \<Rightarrow> \<lparr>rid = None, rbody = \<lparr>session_id = sid, items = []\<rparr>\<rparr>
      | Some st \<Rightarrow>
          (case find_one (\<lambda>d. session_id (body d) = sid) (cart_coll st) of
             None \<Rightarrow> \<lparr>rid = None, rbody = \<lparr>session_id = sid, items = []\<rparr>\<rparr>
           | Some c \<Rightarrow> expose_id c))"

text \<open>
  \<^verbatim>\<open>upsert_cart\<close> (lines 260 to 274). \<open>k\<close> is the key the store gives a newly
  inserted document; it is used on the insert branch only. The handler catches nothing:
  when \<^verbatim>\<open>update_one\<close> (line 267) or \<^verbatim>\<open>create_document\<close> (line 272) raises, the
  request ends with that failure and the store is as it was.
\<close>

definition upsert_cart ::
  "(write_op \<Rightarrow> error option) \<Rightarrow> object_id \<Rightarrow> store option \<Rightarrow> cart \<Rightarrow>
   (error + cart resp) \<times> store option" where
  "upsert_cart wr k db c =
     (case db of
        None \<Rightarrow> (Inr \<lparr>rid = None, rbody = c\<rparr>, None)
      | Some st \<Rightarrow>
          (case find_one (\<lambda>d. session_id (body d) = session_id c) (cart_coll st) of
             Some existing \<Rightarrow>
               (case wr (SetItems (items c)) of
                  Some e \<Rightarrow> (Inl e, Some st)
                | None \<Rightarrow>
                    (Inr (expose_id (existing\<lparr>body := (body existing)\<lparr>items := items c\<rparr>\<rparr>)),
                     Some (st\<lparr>cart_coll :=
                        update_one (oid existing) (\<lambda>b. b\<lparr>items := items c\<rparr>)
                          (cart_coll st)\<rparr>)))
           | None \<Rightarrow>
               (case create_document wr k (Some st) c of
                  (Inl e, db') \<Rightarrow> (Inl e, db')
                | (Inr new_id, db') \<Rightarrow> (Inr \<lparr>rid = Some new_id, rbody = c\<rparr>, db'))))"

section \<open>Products API\<close>

subsection \<open>The query document\<close>

text \<open>
  The dictionary \<^verbatim>\<open>filt\<close> that \<^verbatim>\<open>list_products\<close> builds has at most four
  entries; an entry that was not set is \<open>None\<close>. \<^verbatim>\<open>price_cond\<close> is a dictionary of
  its own with at most two entries.
\<close>

record price_cond =
  gte :: "real option"
  lte :: "real option"

record filt =
  f_or :: "string option"
  f_category :: "string option"
  f_price :: "price_cond option"
  f_featured :: "bool option"

text \<open>
  The regular expression engine belongs to the store and is the parameter \<open>rx\<close>.
  The pattern of the request goes into \<^verbatim>\<open>$regex\<close> as it was sent. \<open>rx pat\<close> is
  \<open>None\<close> when the engine refuses the pattern (\<^verbatim>\<open>+\<close> or \<^verbatim>\<open>(\<close>, say): the
  query then fails as a whole, whatever the documents and the other conditions are.
  Otherwise \<open>rx pat = Some m\<close>, and \<open>m s\<close> tells whether the case-insensitive search
  of the pattern in the text \<open>s\<close> succeeds.

  How the store matches a document against the query document, with the text condition
  already compiled to \<open>m\<close>. The conditions of the dictionary are a conjunction. On
  the array field \<^verbatim>\<open>tags\<close> a condition holds when it holds for some element.
\<close>

definition matches :: "(string \<Rightarrow> bool) option \<Rightarrow> filt \<Rightarrow> product doc \<Rightarrow> bool" where
  "matches m f d =
     ((case m of None \<Rightarrow> True
       | Some search \<Rightarrow> search (title (body d)) \<or> search (description (body d))
                     \<or> list_ex search (tags (body d)))
      \<and> (case f_category f of None \<Rightarrow> True | Some c \<Rightarrow> category (body d) = c)
      \<and> (case f_price f of None \<Rightarrow> True
         | Some pc \<Rightarrow> (case gte pc of None \<Rightarrow> True | Some lo \<Rightarrow> lo \<le> price (body d))
                     \<and> (case lte pc of None \<Rightarrow> True | Some hi \<Rightarrow> price (body d) \<le> hi))
      \<and> (case f_featured f of None \<Rightarrow> True | Some b \<Rightarrow> featured (body d) = b))"

text \<open>
  \<^verbatim>\<open>find(filt)\<close>: the matching documents in the store's natural order, or the
  store's failure for a pattern its engine refuses.
\<close>

definition find_docs ::
  "(string \<Rightarrow> (string \<Rightarrow> bool) option) \<Rightarrow> filt \<Rightarrow> product doc list \<Rightarrow>
   error + product doc list" where
  "find_docs rx f ds =
     (case f_or f of
        None \<Rightarrow> Inr (filter (matches None f) ds)
      | Some pat \<Rightarrow>
          (case rx pat of
             None \<Rightarrow> Inl OperationFailure
           | Some search \<Rightarrow> Inr (filter (matches (Some search) f) ds)))"

text \<open>
  \<^verbatim>\<open>cursor.sort(field, 1)\<close> and \<^verbatim>\<open>cursor.sort(field, -1)\<close>, with ties left in
  natural order.
\<close>

definition sort_asc :: "('a doc \<Rightarrow> real) \<Rightarrow> 'a doc list \<Rightarrow> 'a doc list" where
  "sort_asc key ds = sort_key key ds"

definition sort_desc :: "('a doc \<Rightarrow> real) \<Rightarrow> 'a doc list \<Rightarrow> 'a doc list" where
  "sort_desc key ds = sort_key (\<lambda>d. - key d) ds"

text \<open>
  \<^verbatim>\<open>cursor.limit(n)\<close>: a limit of 0 is no limit, and the driver takes a negative
  limit by its absolute value.
\<close>

definition cursor_limit :: "int \<Rightarrow> 'a list \<Rightarrow> 'a list" where
  "cursor_limit n ds = (if n = 0 then ds else take (nat \<bar>n\<bar>) ds)"

subsection \<open>The handlers\<close>

record product_page =
  page_items :: "product resp list"
  page_total :: int

text \<open>Python's truth test of an optional string: \<^verbatim>\<open>if q:\<close>.\<close>

definition truthy :: "string option \<Rightarrow> bool" where
  "truthy s = (case s of None \<Rightarrow> False | Some v \<Rightarrow> v \<noteq> [])"

text \<open>Lines 192 to 209: the query document from the parameters.\<close>

definition build_filt ::
  "string option \<Rightarrow> string option \<Rightarrow> real option \<Rightarrow> real option \<Rightarrow> bool option \<Rightarrow> filt" where
  "build_filt q cat min_price max_price feat =
     (let pc = \<lparr>gte = min_price, lte = max_price\<rparr>
      in \<lparr>f_or = (if truthy q then q else None),
          f_category = (if truthy cat then cat else None),
          f_price = (if gte pc = None \<and> lte pc = None then None else Some pc),
          f_featured = feat\<rparr>)"

text \<open>
  \<^verbatim>\<open>list_products\<close> (lines 181 to 223). The parameters \<^verbatim>\<open>category\<close>,
  \<^verbatim>\<open>featured\<close> and \<^verbatim>\<open>sort\<close> are \<open>cat\<close>, \<open>feat\<close> and \<open>sort_by\<close> here. The
  handler catches nothing, so a failure of the query is the outcome of the request.
\<close>

definition list_products ::
  "(string \<Rightarrow> (string \<Rightarrow> bool) option) \<Rightarrow> store option \<Rightarrow> string option \<Rightarrow>
   string option \<Rightarrow> real option \<Rightarrow> real option \<Rightarrow> bool option \<Rightarrow> string option \<Rightarrow> int \<Rightarrow>
   error + product_page" where
  "list_products rx db q cat min_price max_price feat sort_by limit =
     (case db of
        None \<Rightarrow> Inr \<lparr>page_items = [], page_total = 0\<rparr>
      | Some st \<Rightarrow>
          (case find_docs rx (build_filt q cat min_price max_price feat) (product_coll st) of
             Inl e \<Rightarrow> Inl e
           | Inr found \<Rightarrow>
               (let cursor =
                      (if sort_by = Some ''price_asc'' then sort_asc (\<lambda>d. price (body d)) found
                       else if sort_by = Some ''price_desc''
                            then sort_desc (\<lambda>d. price (body d)) found
                       else if sort_by = Some ''rating_desc''
                            then sort_desc (\<lambda>d. rating (body d)) found
                       else found);
                    its = map expose_id (cursor_limit limit cursor)
                in Inr \<lparr>page_items = its, page_total = int (length its)\<rparr>)))"

text \<open>
  The constraints the signature declares (\<^verbatim>\<open>Query(ge=0)\<close> on both prices,
  \<^verbatim>\<open>Query(ge=1, le=200)\<close> on the limit) are checked before the body runs; a request
  that breaks one is answered with a validation error.
\<close>

definition valid_query :: "real option \<Rightarrow> real option \<Rightarrow> int \<Rightarrow> bool" where
  "valid_query min_price max_price limit =
     ((case min_price of None \<Rightarrow> True | Some lo \<Rightarrow> 0 \<le> lo)
      \<and> (case max_price of None \<Rightarrow> True | Some hi \<Rightarrow> 0 \<le> hi)
      \<and> 1 \<le> limit \<and> limit \<le> 200)"

definition list_products_request ::
  "(string \<Rightarrow> (string \<Rightarrow> bool) option) \<Rightarrow> store option \<Rightarrow> string option \<Rightarrow>
   string option \<Rightarrow> real option \<Rightarrow> real option \<Rightarrow> bool option \<Rightarrow> string option \<Rightarrow> int \<Rightarrow>
   error + product_page" where
  "list_products_request rx db q cat min_price max_price feat sort_by limit =
     (if valid_query min_price max_price limit
      then list_products rx db q cat min_price max_price feat sort_by limit
      else Inl RequestValidationError)"

text \<open>
  The text parameter of a request is harmless when it sets no text condition or when
  the engine takes it as a pattern.
\<close>

definition pattern_ok :: "(string \<Rightarrow> (string \<Rightarrow> bool) option) \<Rightarrow> string option \<Rightarrow> bool" where
  "pattern_ok rx q = (case q of None \<Rightarrow> True | Some pat \<Rightarrow> pat = [] \<or> rx pat \<noteq> None)"

text \<open>
  \<^verbatim>\<open>get_product\<close> (lines 226 to 237). A string the key constructor rejects raises
  inside the \<^verbatim>\<open>try\<close>, and the handler goes on with \<^verbatim>\<open>doc = None\<close>.
\<close>

definition get_product :: "store option \<Rightarrow> string \<Rightarrow> error + product resp" where
  "get_product db pid =
     (case db of
        None \<Rightarrow> Inl (HTTPException 404 ''Product not found'')
      | Some st \<Rightarrow>
          (let doc = (case ObjectId pid of
                        None \<Rightarrow> None
                      | Some k \<Rightarrow> find_one (\<lambda>d. oid d = k) (product_coll st))
           in case doc of
                None \<Rightarrow> Inl (HTTPException 404 ''Product not found'')
              | Some d \<Rightarrow> Inr (expose_id d)))"

text \<open>
  \<^verbatim>\<open>get_categories\<close> (lines 240 to 245). \<^verbatim>\<open>distinct\<close> gives each value once, in
  an order of the store's choosing.
\<close>

definition get_categories :: "store option \<Rightarrow> string list" where
  "get_categories db =
     (case db of
        None \<Rightarrow> [''Watches'', ''Wearables'', ''Tech'', ''Wallets'', ''Jewelry'', ''Eyewear'']
      | Some st \<Rightarrow> remdups (map (\<lambda>d. category (body d)) (product_coll st)))"

subsection \<open>An engine and a driver for the examples\<close>

text \<open>
  For a pattern without metacharacters the store's case-insensitive search is a
  substring test on the lower-cased texts, and a pattern that starts with a quantifier
  has nothing to repeat and is refused. \<open>sample_regex\<close> does both and stands for the
  store's engine in the examples, which use only these two kinds of pattern.
\<close>

definition lower_ascii :: "char \<Rightarrow> char" where
  "lower_ascii c =
     (case map_of (zip ''ABCDEFGHIJKLMNOPQRSTUVWXYZ'' ''abcdefghijklmnopqrstuvwxyz'') c of
        None \<Rightarrow> c
      | Some l \<Rightarrow> l)"

fun substring :: "string \<Rightarrow> string \<Rightarrow> bool" where
  "substring p [] = (p = [])"
| "substring p (c # cs) = (take (length p) (c # cs) = p \<or> substring p cs)"

definition plain_search :: "string \<Rightarrow> string \<Rightarrow> bool" where
  "plain_search pat s = substring (map lower_ascii pat) (map lower_ascii s)"

definition sample_regex :: "string \<Rightarrow> (string \<Rightarrow> bool) option" where
  "sample_regex pat =
     (case pat of
        [] \<Rightarrow> Some (plain_search pat)
      | c # _ \<Rightarrow> if c \<in> set ''*+?'' then None else Some (plain_search pat))"

text \<open>
  The driver encodes an integer in at most eight bytes and raises
  \<^verbatim>\<open>OverflowError\<close> for any other. \<open>bson_refusal\<close> refuses a write for this reason
  and for no other; it stands for the store and its driver in the examples.
\<close>

definition int64 :: "int \<Rightarrow> bool" where
  "int64 n = (- (2 ^ 63) \<le> n \<and> n < 2 ^ 63)"

fun op_items :: "write_op \<Rightarrow> cart_item list" where
  "op_items (SetItems its) = its"
| "op_items (InsertCart c) = items c"

definition bson_refusal :: "write_op \<Rightarrow> error option" where
  "bson_refusal w =
     (if list_all (\<lambda>i. int64 (quantity i)) (op_items w) then None else Some OverflowError)"

subsection \<open>The seeded catalogue\<close>

text \<open>
  \<^verbatim>\<open>demo_products\<close> of \<^verbatim>\<open>seed_products\<close> (lines 37 to 131), the six products
  written into an empty store at startup, and a store that holds them under six keys.
\<close>

definition demo_products :: "product list" where
  "demo_products =
   [\<lparr>title = ''Aether Chrono X1'',
      description = ''Premium titanium watch with sapphire crystal, neon lume, and quantum-precision movement.'',
      price = 1299, category = ''Watches'', in_stock = True,
      image_url = ''https://images.unsplash.com/photo-1518544801976-3e188ae4fab1?q=80&w=1600&auto=format&fit=crop'',
      gallery = [''https://images.unsplash.com/photo-1524805444758-089113d48a6f?q=80&w=1600&auto=format&fit=crop'',
        ''https://images.unsplash.com/photo-1516826957135-700dedea698c?q=80&w=1600&auto=format&fit=crop''],
      colors = [''titanium'', ''onyx''], materials = [''titanium'', ''sapphire''],
      rating = 49 / 10, featured = True, model_url = None,
      tags = [''chrono'', ''luxury'', ''neon'']\<rparr>,
    \<lparr>title = ''Nebula Wallet Pro'',
      description = ''Slim carbon-fiber wallet with RFID shield and magnetic quick-access.'',
      price = 189, category = ''Wallets'', in_stock = True,
      image_url = ''https://images.unsplash.com/photo-1610701592028-0b4f6a9817d4?q=80&w=1600&auto=format&fit=crop'',
      gallery = [],
      colors = [''carbon'', ''silver''], materials = [''carbon fiber'', ''aluminum''],
      rating = 47 / 10, featured = True, model_url = None,
      tags = [''rfid'', ''slim'']\<rparr>,
    \<lparr>title = ''Flux Rings Set'',
      description = ''Stackable rings with iridescent finish and subtle lumen edge.'',
      price = 129, category = ''Jewelry'', in_stock = True,
      image_url = ''https://images.unsplash.com/photo-1522335789203-aabd1fc54bc9?q=80&w=1600&auto=format&fit=crop'',
      gallery = [],
      colors = [''violet'', ''steel''], materials = [''steel''],
      rating = 46 / 10, featured = False, model_url = None,
      tags = [''rings'', ''iridescent'']\<rparr>,
    \<lparr>title = ''Spectra AR Shades'',
      description = ''Next-gen eyewear with polarized optics and AR-ready frame.'',
      price = 349, category = ''Eyewear'', in_stock = True,
      image_url = ''https://images.unsplash.com/photo-1511499767150-a48a237f0083?q=80&w=1600&auto=format&fit=crop'',
      gallery = [],
      colors = [''black'', ''smoke''], materials = [''polycarbonate''],
      rating = 45 / 10, featured = True, model_url = None,
      tags = [''ar'', ''polarized'']\<rparr>,
    \<lparr>title = ''Pulse Band S'',
      description = ''Holographic wearable with health telemetry and soft neon glow.'',
      price = 499, category = ''Wearables'', in_stock = True,
      image_url = ''https://images.unsplash.com/photo-1526401485004-2fda9f4fced4?q=80&w=1600&auto=format&fit=crop'',
      gallery = [],
      colors = [''teal'', ''violet''], materials = [''silicone'', ''aluminum''],
      rating = 44 / 10, featured = False, model_url = None,
      tags = [''health'', ''wearable'']\<rparr>,
    \<lparr>title = ''Ion Dock +'',
      description = ''Minimal magnetic charger with soft white halo illumination.'',
      price = 89, category = ''Tech'', in_stock = True,
      image_url = ''https://images.unsplash.com/photo-1517495306984-937b1812c8a7?q=80&w=1600&auto=format&fit=crop'',
      gallery = [],
      colors = [''white'', ''graphite''], materials = [''aluminum''],
      rating = 43 / 10, featured = False, model_url = None,
      tags = [''charger'', ''dock'']\<rparr>]"

definition demo_keys :: "object_id list" where
  "demo_keys =
   [Oid ''65a1f00000000000000000a1'', Oid ''65a1f00000000000000000a2'',
    Oid ''65a1f00000000000000000a3'', Oid ''65a1f00000000000000000a4'',
    Oid ''65a1f00000000000000000a5'', Oid ''65a1f00000000000000000a6'']"

definition seeded_store :: store where
  "seeded_store =
     \<lparr>product_coll = map (\<lambda>(k, p). \<lparr>oid = k, body = p\<rparr>) (zip demo_keys demo_products),
      cart_coll = []\<rparr>"

subsection \<open>A session with a cart\<close>

text \<open>
  The example of the spec: session \<open>S\<close> first holds two of \<open>p1\<close>, then the payload
  with one \<open>p2\<close> is sent.
\<close>

definition cart_key :: object_id where
  "cart_key = Oid ''65a1f00000000000000000c1''"

definition cart_S_p1 :: cart where
  "cart_S_p1 = \<lparr>session_id = ''S'', items = [\<lparr>product_id = ''p1'', quantity = 2\<rparr>]\<rparr>"

definition cart_S_p2 :: cart where
  "cart_S_p2 = \<lparr>session_id = ''S'', items = [\<lparr>product_id = ''p2'', quantity = 1\<rparr>]\<rparr>"

definition store_S :: store where
  "store_S = seeded_store\<lparr>cart_coll := [\<lparr>oid = cart_key, body = cart_S_p1\<rparr>]\<rparr>"

text \<open>A payload for \<open>S\<close> with a quantity of \<open>2 ^ 63\<close>, and a store with no documents.\<close>

definition cart_S_huge :: cart where
  "cart_S_huge = \<lparr>session_id = ''S'', items = [\<lparr>product_id = ''p2'', quantity = 2 ^ 63\<rparr>]\<rparr>"

definition empty_store :: store where
  "empty_store = \<lparr>product_coll = [], cart_coll = []\<rparr>"

section \<open>Properties\<close>

subsection \<open>Facts about the store operations\<close>

lemma map_oid_update_one: "map oid (update_one k f ds) = map oid ds"
  by (induction ds) auto

lemma find_one_update_one:
  assumes "distinct (map oid ds)" and "find_one P ds = Some e"
      and "\<And>d. P (d\<lparr>body := f (body d)\<rparr>) = P d"
  shows "find_one P (update_one (oid e) f ds) = Some (e\<lparr>body := f (body e)\<rparr>)"
  using assms(1,2) unfolding find_one_def
proof (induction ds)
  case Nil
  then show ?case by simp
next
  case (Cons d ds)
  show ?case
  proof (cases "P d")
    case True
    with Cons.prems show ?thesis by (simp add: assms(3))
  next
    case False
    with Cons.prems have fe: "List.find P ds = Some e" by simp
    then have "e \<in> set ds" by (auto simp: find_Some_iff)
    with Cons.prems have "oid d \<noteq> oid e" by auto
    with False Cons.IH Cons.prems fe show ?thesis by simp
  qed
qed

lemma update_one_same:
  assumes "distinct (map oid ds)" and "e \<in> set ds" and "f (body e) = body e"
  shows "update_one (oid e) f ds = ds"
  using assms by (induction ds) auto

lemma find_one_append_new:
  "find_one P ds = None \<Longrightarrow> find_one P (ds @ [d]) = (if P d then Some d else None)"
  unfolding find_one_def by (induction ds) (auto split: if_splits)

lemma find_one_in: "find_one P ds = Some e \<Longrightarrow> e \<in> set ds \<and> P e"
  unfolding find_one_def by (auto simp: find_Some_iff)

lemma upsert_cart_update:
  assumes "distinct (map oid (cart_coll st))"
      and "find_one (\<lambda>d. session_id (body d) = session_id c) (cart_coll st) = Some e"
      and "wr (SetItems (items c)) = None"
  shows "upsert_cart wr k (Some st) c =
           (Inr \<lparr>rid = Some (str_oid (oid e)), rbody = c\<rparr>,
            Some (st\<lparr>cart_coll :=
               update_one (oid e) (\<lambda>b. b\<lparr>items := items c\<rparr>) (cart_coll st)\<rparr>))"
    and "find_one (\<lambda>d. session_id (body d) = session_id c)
           (update_one (oid e) (\<lambda>b. b\<lparr>items := items c\<rparr>) (cart_coll st))
         = Some (e\<lparr>body := c\<rparr>)"
proof -
  from assms(2) have "session_id (body e) = session_id c"
    by (auto dest: find_one_in)
  then have be: "(body e)\<lparr>items := items c\<rparr> = c" by simp
  show "upsert_cart wr k (Some st) c =
           (Inr \<lparr>rid = Some (str_oid (oid e)), rbody = c\<rparr>,
            Some (st\<lparr>cart_coll :=
               update_one (oid e) (\<lambda>b. b\<lparr>items := items c\<rparr>) (cart_coll st)\<rparr>))"
    using assms(2,3) be by (simp add: upsert_cart_def expose_id_def)
  have "find_one (\<lambda>d. session_id (body d) = session_id c)
              (update_one (oid e) (\<lambda>b. b\<lparr>items := items c\<rparr>) (cart_coll st))
            = Some (e\<lparr>body := (body e)\<lparr>items := items c\<rparr>\<rparr>)"
    by (rule find_one_update_one[OF assms(1,2)]) simp
  then show "find_one (\<lambda>d. session_id (body d) = session_id c)
           (update_one (oid e) (\<lambda>b. b\<lparr>items := items c\<rparr>) (cart_coll st))
         = Some (e\<lparr>body := c\<rparr>)"
    by (simp add: be)
qed

lemma upsert_cart_refused_update:
  assumes "find_one (\<lambda>d. session_id (body d) = session_id c) (cart_coll st) = Some e"
      and "wr (SetItems (items c)) = Some err"
  shows "upsert_cart wr k (Some st) c = (Inl err, Some st)"
  using assms by (simp add: upsert_cart_def)

lemma upsert_cart_insert:
  assumes "find_one (\<lambda>d. session_id (body d) = session_id c) (cart_coll st) = None"
  shows "upsert_cart wr k (Some st) c =
           (case wr (InsertCart c) of
              Some err \<Rightarrow> (Inl err, Some st)
            | None \<Rightarrow> (Inr \<lparr>rid = Some (str_oid k), rbody = c\<rparr>,
                       Some (st\<lparr>cart_coll := cart_coll st @ [\<lparr>oid = k, body = c\<rparr>]\<rparr>)))"
  using assms by (simp add: upsert_cart_def create_document_def split: option.splits)

subsection \<open>The cart\<close>




text \<open>
  C8. For a session with no stored cart, and also when there is no store, \<open>get_cart\<close>
  returns the empty cart of that session, with no \<open>id\<close>; for a session with a stored
  cart it returns that cart with its key exposed as the string \<open>id\<close>.
\<close>

theorem get_cart_zero_value_or_stored:
  "(db = None \<or> (\<exists>st. db = Some st \<and>
        find_one (\<lambda>d. session_id (body d) = sid) (cart_coll st) = None)
     \<longrightarrow> get_cart db sid = \<lparr>rid = None, rbody = \<lparr>session_id = sid, items = []\<rparr>\<rparr>)
   \<and> (\<forall>st c. db = Some st \<and>
        find_one (\<lambda>d. session_id (body d) = sid) (cart_coll st) = Some c
     \<longrightarrow> get_cart db sid = \<lparr>rid = Some (str_oid (oid c)), rbody = body c\<rparr>
         \<and> session_id (rbody (get_cart db sid)) = sid)"
  by (auto simp: get_cart_def expose_id_def find_one_def dest: find_Some_iff[THEN iffD1])

theorem get_cart_zero_value_or_stored_witness:
  "get_cart None ''S'' = \<lparr>rid = None, rbody = \<lparr>session_id = ''S'', items = []\<rparr>\<rparr>
   \<and> find_one (\<lambda>d. session_id (body d) = ''T'') (cart_coll store_S) = None
   \<and> get_cart (Some store_S) ''T'' = \<lparr>rid = None, rbody = \<lparr>session_id = ''T'', items = []\<rparr>\<rparr>
   \<and> find_one (\<lambda>d. session_id (body d) = ''S'') (cart_coll store_S)
        = Some \<lparr>oid = cart_key, body = cart_S_p1\<rparr>
   \<and> get_cart (Some store_S) ''S''
        = \<lparr>rid = Some ''65a1f00000000000000000c1'', rbody = cart_S_p1\<rparr>"
proof -
  have n: "find_one (\<lambda>d. session_id (body d) = ''T'') (cart_coll store_S) = None"
    by (simp add: find_one_def store_S_def cart_S_p1_def)
  have s: "find_one (\<lambda>d. session_id (body d) = ''S'') (cart_coll store_S)
        = Some \<lparr>oid = cart_key, body = cart_S_p1\<rparr>"
    by (simp add: find_one_def store_S_def cart_S_p1_def)
  show ?thesis
    using n s get_cart_zero_value_or_stored [of None "''S''"]
      get_cart_zero_value_or_stored [of "Some store_S" "''T''"]
      get_cart_zero_value_or_stored [of "Some store_S" "''S''"]
    by (simp add: cart_key_def)
qed

text \<open>
  C9. With pairwise different keys in the cart collection and a new key \<open>k1\<close> for a
  document the first call may insert, sending the same payload a second time leaves the
  store as the first call left it, so \<open>get_cart\<close> shows the same cart after either
  call, whether the writes are carried out or refused. If a store that took the insert
  of a payload also takes the update with its items, the second call gives the same
  answer as the first. After a first call that did not fail on a store, the cart has
  the items of the payload. Without a store both calls echo the payload.
\<close>

theorem upsert_cart_idempotent:
  assumes "\<forall>st. db = Some st \<longrightarrow>
             distinct (map oid (cart_coll st)) \<and> k1 \<notin> set (map oid (cart_coll st))"
  shows "snd (upsert_cart wr k2 (snd (upsert_cart wr k1 db c)) c) = snd (upsert_cart wr k1 db c)
       \<and> get_cart (snd (upsert_cart wr k2 (snd (upsert_cart wr k1 db c)) c)) (session_id c)
           = get_cart (snd (upsert_cart wr k1 db c)) (session_id c)
       \<and> ((wr (InsertCart c) = None \<longrightarrow> wr (SetItems (items c)) = None) \<longrightarrow>
            upsert_cart wr k2 (snd (upsert_cart wr k1 db c)) c = upsert_cart wr k1 db c)
       \<and> (db \<noteq> None \<and> \<not> isl (fst (upsert_cart wr k1 db c)) \<longrightarrow>
            items (rbody (get_cart (snd (upsert_cart wr k1 db c)) (session_id c))) = items c)"
proof (cases db)
  case None
  then show ?thesis by (simp add: upsert_cart_def)
next
  case (Some st)
  with assms have dist: "distinct (map oid (cart_coll st))"
    and fresh: "k1 \<notin> set (map oid (cart_coll st))" by auto
  let ?P = "\<lambda>d. session_id (body d) = session_id c"
  let ?f = "\<lambda>b. b\<lparr>items := items c\<rparr>"
  show ?thesis
  proof (cases "find_one ?P (cart_coll st)")
    case None
    note nofind = None
    show ?thesis
    proof (cases "wr (InsertCart c)")
      case (Some err)
      then have r: "upsert_cart wr k (Some st) c = (Inl err, Some st)" for k
        using upsert_cart_insert[OF nofind, of wr k] by simp
      show ?thesis using \<open>db = Some st\<close> by (simp add: r)
    next
      case None
      let ?n = "\<lparr>oid = k1, body = c\<rparr>"
      let ?st1 = "st\<lparr>cart_coll := cart_coll st @ [?n]\<rparr>"
      have first: "upsert_cart wr k1 db c =
          (Inr \<lparr>rid = Some (str_oid k1), rbody = c\<rparr>, Some ?st1)"
        using upsert_cart_insert[OF nofind, of wr k1] None \<open>db = Some st\<close> by simp
      have fnd: "find_one ?P (cart_coll ?st1) = Some ?n"
        using find_one_append_new[OF nofind, of ?n] by simp
      have dist': "distinct (map oid (cart_coll ?st1))"
        using dist fresh by simp
      have upd: "update_one (oid ?n) ?f (cart_coll ?st1) = cart_coll ?st1"
        using update_one_same[OF dist', of ?n ?f] by simp
      have gc: "get_cart (Some ?st1) (session_id c) = \<lparr>rid = Some (str_oid k1), rbody = c\<rparr>"
        using fnd by (simp add: get_cart_def expose_id_def)
      show ?thesis
      proof (cases "wr (SetItems (items c))")
        case None
        have "upsert_cart wr k2 (Some ?st1) c =
                (Inr \<lparr>rid = Some (str_oid k1), rbody = c\<rparr>, Some ?st1)"
          using upsert_cart_update(1)[where wr = wr and k = k2, OF dist' fnd None] upd by simp
        with first gc show ?thesis by simp
      next
        case (Some err)
        have "upsert_cart wr k2 (Some ?st1) c = (Inl err, Some ?st1)"
          using upsert_cart_refused_update[where wr = wr, OF fnd Some] .
        with first gc Some \<open>wr (InsertCart c) = None\<close> show ?thesis by simp
      qed
    qed
  next
    case (Some e)
    note found = Some
    show ?thesis
    proof (cases "wr (SetItems (items c))")
      case (Some err)
      then have r: "upsert_cart wr k (Some st) c = (Inl err, Some st)" for k
        using upsert_cart_refused_update[OF found, of wr err k] by simp
      show ?thesis using \<open>db = Some st\<close> by (simp add: r)
    next
      case None
      let ?ds' = "update_one (oid e) ?f (cart_coll st)"
      let ?st1 = "st\<lparr>cart_coll := ?ds'\<rparr>"
      let ?e' = "e\<lparr>body := c\<rparr>"
      have first: "upsert_cart wr k1 db c =
          (Inr \<lparr>rid = Some (str_oid (oid e)), rbody = c\<rparr>, Some ?st1)"
        using upsert_cart_update(1)[where wr = wr and k = k1, OF dist found None] \<open>db = Some st\<close> by simp
      have fnd: "find_one ?P (cart_coll ?st1) = Some ?e'"
        using upsert_cart_update(2)[where wr = wr, OF dist found None] by simp
      have dist': "distinct (map oid (cart_coll ?st1))"
        using dist by (simp add: map_oid_update_one)
      have "?e' \<in> set (cart_coll ?st1)" using fnd by (auto dest: find_one_in)
      from update_one_same[OF dist' this, of ?f]
      have upd: "update_one (oid e) ?f (cart_coll ?st1) = cart_coll ?st1" by simp
      have gc: "get_cart (Some ?st1) (session_id c)
                  = \<lparr>rid = Some (str_oid (oid e)), rbody = c\<rparr>"
        using fnd by (simp add: get_cart_def expose_id_def)
      have "upsert_cart wr k2 (Some ?st1) c =
              (Inr \<lparr>rid = Some (str_oid (oid e)), rbody = c\<rparr>, Some ?st1)"
        using upsert_cart_update(1)[where wr = wr and k = k2, OF dist' fnd None] upd by simp
      with first gc show ?thesis by simp
    qed
  qed
qed

theorem upsert_cart_idempotent_witness:
  "distinct (map oid (cart_coll store_S))
   \<and> Oid ''65a1f00000000000000000c2'' \<notin> set (map oid (cart_coll store_S))
   \<and> upsert_cart bson_refusal (Oid ''65a1f00000000000000000c3'')
        (snd (upsert_cart bson_refusal (Oid ''65a1f00000000000000000c2'') (Some store_S)
           cart_S_p2)) cart_S_p2
      = upsert_cart bson_refusal (Oid ''65a1f00000000000000000c2'') (Some store_S) cart_S_p2
   \<and> \<not> isl (fst (upsert_cart bson_refusal (Oid ''65a1f00000000000000000c2'')
               (Some store_S) cart_S_p2))
   \<and> items (rbody (get_cart
        (snd (upsert_cart bson_refusal (Oid ''65a1f00000000000000000c2'') (Some store_S)
           cart_S_p2)) (session_id cart_S_p2)))
      = items cart_S_p2
   \<and> items cart_S_p2 = [\<lparr>product_id = ''p2'', quantity = 1\<rparr>]
   \<and> upsert_cart bson_refusal (Oid ''65a1f00000000000000000c3'')
        (snd (upsert_cart bson_refusal (Oid ''65a1f00000000000000000c2'') (Some seeded_store)
           cart_S_p2)) cart_S_p2
      = upsert_cart bson_refusal (Oid ''65a1f00000000000000000c2'') (Some seeded_store) cart_S_p2
   \<and> upsert_cart bson_refusal (Oid ''65a1f00000000000000000c3'')
        (snd (upsert_cart bson_refusal (Oid ''65a1f00000000000000000c2'') (Some store_S)
           cart_S_huge)) cart_S_huge
      = upsert_cart bson_refusal (Oid ''65a1f00000000000000000c2'') (Some store_S) cart_S_huge"
proof -
  have h: "\<forall>st. Some store_S = Some st \<longrightarrow>
      distinct (map oid (cart_coll st))
      \<and> Oid ''65a1f00000000000000000c2'' \<notin> set (map oid (cart_coll st))"
    by (simp add: store_S_def cart_key_def)
  have h2: "\<forall>st. Some seeded_store = Some st \<longrightarrow>
      distinct (map oid (cart_coll st))
      \<and> Oid ''65a1f00000000000000000c2'' \<notin> set (map oid (cart_coll st))"
    by (simp add: seeded_store_def)
  have m: "bson_refusal (InsertCart c) = None \<longrightarrow> bson_refusal (SetItems (items c)) = None"
    for c
    by (simp add: bson_refusal_def)
  have ok: "\<not> isl (fst (upsert_cart bson_refusal (Oid ''65a1f00000000000000000c2'')
               (Some store_S) cart_S_p2))"
    by (simp add: upsert_cart_def find_one_def store_S_def cart_S_p1_def cart_S_p2_def
        bson_refusal_def int64_def)
  have its: "items cart_S_p2 = [\<lparr>product_id = ''p2'', quantity = 1\<rparr>]"
    by (simp add: cart_S_p2_def)
  note i1 = upsert_cart_idempotent [OF h, of bson_refusal "Oid ''65a1f00000000000000000c3''"
      cart_S_p2]
  note i2 = upsert_cart_idempotent [OF h2, of bson_refusal "Oid ''65a1f00000000000000000c3''"
      cart_S_p2]
  note i3 = upsert_cart_idempotent [OF h, of bson_refusal "Oid ''65a1f00000000000000000c3''"
      cart_S_huge]
  from h have d: "distinct (map oid (cart_coll store_S))
      \<and> Oid ''65a1f00000000000000000c2'' \<notin> set (map oid (cart_coll store_S))" by blast
  from i1 m[of cart_S_p2] ok have e1:
    "upsert_cart bson_refusal (Oid ''65a1f00000000000000000c3'')
        (snd (upsert_cart bson_refusal (Oid ''65a1f00000000000000000c2'') (Some store_S)
           cart_S_p2)) cart_S_p2
      = upsert_cart bson_refusal (Oid ''65a1f00000000000000000c2'') (Some store_S) cart_S_p2"
    and g1: "items (rbody (get_cart
        (snd (upsert_cart bson_refusal (Oid ''65a1f00000000000000000c2'') (Some store_S)
           cart_S_p2)) (session_id cart_S_p2)))
      = items cart_S_p2"
    by blast+
  from i2 m[of cart_S_p2] have e2:
    "upsert_cart bson_refusal (Oid ''65a1f00000000000000000c3'')
        (snd (upsert_cart bson_refusal (Oid ''65a1f00000000000000000c2'') (Some seeded_store)
           cart_S_p2)) cart_S_p2
      = upsert_cart bson_refusal (Oid ''65a1f00000000000000000c2'') (Some seeded_store) cart_S_p2"
    by blast
  from i3 m[of cart_S_huge] have e3:
    "upsert_cart bson_refusal (Oid ''65a1f00000000000000000c3'')
        (snd (upsert_cart bson_refusal (Oid ''65a1f00000000000000000c2'') (Some store_S)
           cart_S_huge)) cart_S_huge
      = upsert_cart bson_refusal (Oid ''65a1f00000000000000000c2'') (Some store_S) cart_S_huge"
    by blast
  from d e1 ok g1 its e2 e3 show ?thesis by blast
qed

text \<open>
  C3. Without a store \<open>upsert_cart\<close> returns before any store operation: the answer
  is the payload as it was sent, with no \<open>id\<close>, no failure is raised and there is
  still no store. The write path stops at the same guard as the read paths.
\<close>

theorem upsert_cart_unavailable_echo:
  "upsert_cart wr k None c = (Inr \<lparr>rid = None, rbody = c\<rparr>, None)"
  by (simp add: upsert_cart_def)

text \<open>
  The claim as the spec words it, that the write is attempted and its failure reaches
  the caller, is false for the payload of the example: the answer is not a failure,
  although inserting without a store is one.
\<close>

theorem upsert_cart_unavailable_counterexample:
  "fst (upsert_cart bson_refusal cart_key None cart_S_p1) = Inr \<lparr>rid = None, rbody = cart_S_p1\<rparr>
   \<and> \<not> isl (fst (upsert_cart bson_refusal cart_key None cart_S_p1))
   \<and> snd (upsert_cart bson_refusal cart_key None cart_S_p1) = None
   \<and> isl (fst (create_document bson_refusal cart_key None cart_S_p1))"
  by (simp add: upsert_cart_def create_document_def)

subsection \<open>The catalogue\<close>

lemmas seeded_defs = seeded_store_def demo_products_def demo_keys_def
lemmas query_defs = list_products_def find_docs_def matches_def build_filt_def truthy_def
  cursor_limit_def expose_id_def sort_asc_def sort_desc_def

lemma length_cursor_limit: "1 \<le> n \<Longrightarrow> int (length (cursor_limit n ds)) \<le> n"
  by (simp add: cursor_limit_def)

lemma find_docs_pattern:
  "find_docs rx (build_filt q cat min_price max_price feat) ds = Inl e
     \<longleftrightarrow> e = OperationFailure \<and> \<not> pattern_ok rx q"
  by (auto simp: find_docs_def build_filt_def truthy_def pattern_ok_def
      split: option.splits)

lemma list_products_failure:
  "list_products rx db q cat min_price max_price feat sort_by limit = Inl e
     \<longleftrightarrow> db \<noteq> None \<and> e = OperationFailure \<and> \<not> pattern_ok rx q"
proof (cases db)
  case None
  then show ?thesis by (simp add: list_products_def)
next
  case (Some st)
  show ?thesis
  proof (cases "find_docs rx (build_filt q cat min_price max_price feat) (product_coll st)")
    case (Inl e')
    with Some find_docs_pattern[of rx q cat min_price max_price feat "product_coll st" e']
    show ?thesis by (auto simp: list_products_def)
  next
    case (Inr found)
    with Some find_docs_pattern[of rx q cat min_price max_price feat "product_coll st" e]
    show ?thesis by (auto simp: list_products_def Let_def)
  qed
qed

lemma list_products_page:
  assumes "list_products rx db q cat min_price max_price feat sort_by limit = Inr page"
  shows "page_total page = int (length (page_items page))
       \<and> (1 \<le> limit \<longrightarrow> int (length (page_items page)) \<le> limit)"
proof (cases db)
  case None
  with assms show ?thesis by (auto simp: list_products_def)
next
  case (Some st)
  with assms show ?thesis
    by (auto simp: list_products_def Let_def length_cursor_limit split: sum.splits)
qed

text \<open>
  C2. For a limit between 1 and 200 and any other parameters, every page that
  \<open>list_products\<close> returns has at most \<open>limit\<close> items and a \<open>total\<close> equal to the
  number of items it holds. A page is returned whenever the text parameter is absent,
  empty or a pattern the engine takes; the only failure is the store's, for a pattern
  the engine refuses. A request that passes validation has the outcome of the body.
\<close>

theorem list_products_limit_total:
  assumes "1 \<le> limit" and "limit \<le> 200"
  shows "(\<forall>page. list_products rx db q cat min_price max_price feat sort_by limit = Inr page
            \<longrightarrow> int (length (page_items page)) \<le> limit
              \<and> page_total page = int (length (page_items page)))
       \<and> (pattern_ok rx q \<longrightarrow>
            (\<exists>page. list_products rx db q cat min_price max_price feat sort_by limit = Inr page))
       \<and> (\<forall>e. list_products rx db q cat min_price max_price feat sort_by limit = Inl e
            \<longrightarrow> e = OperationFailure \<and> \<not> pattern_ok rx q)
       \<and> (valid_query min_price max_price limit \<longrightarrow>
            list_products_request rx db q cat min_price max_price feat sort_by limit
              = list_products rx db q cat min_price max_price feat sort_by limit)"
proof -
  have a: "int (length (page_items page)) \<le> limit
             \<and> page_total page = int (length (page_items page))"
    if "list_products rx db q cat min_price max_price feat sort_by limit = Inr page" for page
    using list_products_page[OF that] assms(1) by simp
  have b: "\<exists>page. list_products rx db q cat min_price max_price feat sort_by limit = Inr page"
    if "pattern_ok rx q"
  proof (cases "list_products rx db q cat min_price max_price feat sort_by limit")
    case (Inl e)
    with that show ?thesis by (simp add: list_products_failure)
  next
    case (Inr page)
    then show ?thesis by blast
  qed
  have c: "e = OperationFailure \<and> \<not> pattern_ok rx q"
    if "list_products rx db q cat min_price max_price feat sort_by limit = Inl e" for e
    using that by (simp add: list_products_failure)
  from a b c show ?thesis by (simp add: list_products_request_def)
qed

text \<open>
  On the seeded store with limit 2: six products match, two are returned, and the
  total is 2, the count after the limit. With the pattern \<^verbatim>\<open>+\<close> no page is returned.
\<close>

theorem list_products_limit_total_witness:
  "(1::int) \<le> 2 \<and> (2::int) \<le> 200 \<and> pattern_ok sample_regex None
   \<and> valid_query None None 2
   \<and> length (filter (matches None (build_filt None None None None None))
         (product_coll seeded_store)) = 6
   \<and> (\<exists>page. list_products_request sample_regex (Some seeded_store) None None None None None
               None 2 = Inr page
          \<and> map rid (page_items page)
              = [Some ''65a1f00000000000000000a1'', Some ''65a1f00000000000000000a2'']
          \<and> page_total page = 2)
   \<and> \<not> pattern_ok sample_regex (Some ''+'')
   \<and> list_products sample_regex (Some seeded_store) (Some ''+'') None None None None None 2
       = Inl OperationFailure"
proof -
  have a: "(1::int) \<le> 2" and b: "(2::int) \<le> 200" by simp_all
  have p: "pattern_ok sample_regex None" by (simp add: pattern_ok_def)
  have np: "\<not> pattern_ok sample_regex (Some ''+'')"
    by (simp add: pattern_ok_def sample_regex_def)
  have v: "valid_query None None 2" by (simp add: valid_query_def)
  have n: "length (filter (matches None (build_filt None None None None None))
         (product_coll seeded_store)) = 6"
    by (simp add: seeded_defs matches_def build_filt_def truthy_def)
  have f: "list_products sample_regex (Some seeded_store) (Some ''+'') None None None None None 2
       = Inl OperationFailure"
    by (simp add: list_products_def find_docs_def build_filt_def truthy_def sample_regex_def)
  from list_products_limit_total [OF a b, of sample_regex "Some seeded_store" None None None
      None None None] p v
  obtain page where pg: "list_products sample_regex (Some seeded_store) None None None None None
      None 2 = Inr page"
    and rq: "list_products_request sample_regex (Some seeded_store) None None None None None
      None 2 = Inr page"
    and tot: "page_total page = int (length (page_items page))"
    by auto
  have ids: "map rid (page_items page)
       = [Some ''65a1f00000000000000000a1'', Some ''65a1f00000000000000000a2'']"
    using pg by (auto simp: seeded_defs query_defs)
  then have "length (page_items page) = 2"
    using length_map[of rid "page_items page"] by simp
  with tot have t2: "page_total page = 2" by simp
  have "\<exists>page. list_products_request sample_regex (Some seeded_store) None None None None None
               None 2 = Inr page
          \<and> map rid (page_items page)
              = [Some ''65a1f00000000000000000a1'', Some ''65a1f00000000000000000a2'']
          \<and> page_total page = 2"
    using rq ids t2 by auto
  with p np v n f show ?thesis by simp
qed

text \<open>
  C4. Without a store \<open>get_categories\<close> returns the fixed list of six category
  names, and no failure. On a store that holds no products it returns the empty list.
\<close>

theorem get_categories_fallback:
  "get_categories None
     = [''Watches'', ''Wearables'', ''Tech'', ''Wallets'', ''Jewelry'', ''Eyewear'']
   \<and> length (get_categories None) = 6
   \<and> get_categories (Some (st\<lparr>product_coll := []\<rparr>)) = []"
  by (simp add: get_categories_def)

text \<open>
  The claim for an empty store is false: a store without documents is answered with
  the empty list, not with the six names.
\<close>

theorem get_categories_fallback_counterexample:
  "get_categories (Some empty_store) = []
   \<and> get_categories (Some empty_store)
       \<noteq> [''Watches'', ''Wearables'', ''Tech'', ''Wallets'', ''Jewelry'', ''Eyewear'']"
  by (simp add: get_categories_def empty_store_def)






text \<open>
  C6. A string that is not a well-formed key, and a well-formed key that no stored
  product has, get the same answer from \<open>get_product\<close>: the 404 with the detail
  "Product not found".
\<close>

theorem get_product_not_found:
  "(ObjectId pid = None \<longrightarrow>
      get_product db pid = Inl (HTTPException 404 ''Product not found''))
   \<and> (\<forall>k. ObjectId pid = Some k
          \<and> (\<forall>st. db = Some st \<longrightarrow> k \<notin> set (map oid (product_coll st)))
        \<longrightarrow> get_product db pid = Inl (HTTPException 404 ''Product not found''))"
proof -
  have "find_one (\<lambda>d. oid d = k) ds = None" if "k \<notin> set (map oid ds)" for k and ds :: "product doc list"
    using that by (auto simp: find_one_def find_None_iff)
  then show ?thesis
    by (cases db) (auto simp: get_product_def)
qed

theorem get_product_not_found_witness:
  "ObjectId ''no-such-key'' = None
   \<and> get_product (Some seeded_store) ''no-such-key''
       = Inl (HTTPException 404 ''Product not found'')
   \<and> ObjectId ''65a1f00000000000000000ff'' = Some (Oid ''65a1f00000000000000000ff'')
   \<and> Oid ''65a1f00000000000000000ff'' \<notin> set (map oid (product_coll seeded_store))
   \<and> get_product (Some seeded_store) ''65a1f00000000000000000ff''
       = Inl (HTTPException 404 ''Product not found'')
   \<and> get_product None ''65a1f00000000000000000a1''
       = Inl (HTTPException 404 ''Product not found'')"
proof -
  have m: "ObjectId ''no-such-key'' = None"
    by (simp add: ObjectId_def)
  have w: "ObjectId ''65a1f00000000000000000ff'' = Some (Oid ''65a1f00000000000000000ff'')"
    by (simp add: ObjectId_def hexdigits_def hex_lower_def)
  have w1: "ObjectId ''65a1f00000000000000000a1'' = Some (Oid ''65a1f00000000000000000a1'')"
    by (simp add: ObjectId_def hexdigits_def hex_lower_def)
  have a: "Oid ''65a1f00000000000000000ff'' \<notin> set (map oid (product_coll seeded_store))"
    by (simp add: seeded_defs)
  show ?thesis
    using m w w1 a
      get_product_not_found [of "''no-such-key''" "Some seeded_store"]
      get_product_not_found [of "''65a1f00000000000000000ff''" "Some seeded_store"]
      get_product_not_found [of "''65a1f00000000000000000a1''" None]
    by simp
qed

text \<open>
  C7. A sort value other than the three known ones gives the same result as no sort
  value, in the body and at the level of the validated request.
\<close>

theorem list_products_unrecognized_sort:
  assumes "s \<noteq> ''price_asc''" and "s \<noteq> ''price_desc''" and "s \<noteq> ''rating_desc''"
  shows "list_products rx db q cat min_price max_price feat (Some s) limit
           = list_products rx db q cat min_price max_price feat None limit
       \<and> list_products_request rx db q cat min_price max_price feat (Some s) limit
           = list_products_request rx db q cat min_price max_price feat None limit"
proof -
  have "list_products rx db q cat min_price max_price feat (Some s) limit
           = list_products rx db q cat min_price max_price feat None limit"
    using assms by (cases db) (simp_all add: list_products_def cong: sum.case_cong)
  then show ?thesis by (simp add: list_products_request_def)
qed

theorem list_products_unrecognized_sort_witness:
  "''newest'' \<noteq> ''price_asc'' \<and> ''newest'' \<noteq> ''price_desc'' \<and> ''newest'' \<noteq> ''rating_desc''
   \<and> list_products sample_regex (Some seeded_store) (Some ''neon'') None None None None
        (Some ''newest'') 50
     = list_products sample_regex (Some seeded_store) (Some ''neon'') None None None None None 50
   \<and> list_products_request sample_regex (Some seeded_store) (Some ''neon'') None None None None
        (Some ''newest'') 50
     = list_products_request sample_regex (Some seeded_store) (Some ''neon'') None None None None
        None 50"
proof -
  have a: "''newest'' \<noteq> ''price_asc''" and b: "''newest'' \<noteq> ''price_desc''"
    and c: "''newest'' \<noteq> ''rating_desc''" by simp_all
  show ?thesis
    using a b c
      list_products_unrecognized_sort [OF a b c, of sample_regex "Some seeded_store"
        "Some ''neon''" None None None None 50]
    by simp
qed

text \<open>
  C10. An empty string for \<open>q\<close> gives the same result as no \<open>q\<close>, and an empty
  string for the category the same as no category: the query document gets no text
  condition and no category condition from an empty string.
\<close>

theorem list_products_empty_string_absent:
  "list_products rx db (Some '''') cat min_price max_price feat sort_by limit
     = list_products rx db None cat min_price max_price feat sort_by limit
   \<and> list_products rx db q (Some '''') min_price max_price feat sort_by limit
     = list_products rx db q None min_price max_price feat sort_by limit
   \<and> f_or (build_filt (Some '''') cat min_price max_price feat) = None
   \<and> f_category (build_filt q (Some '''') min_price max_price feat) = None"
proof -
  have fq: "build_filt (Some []) cat min_price max_price feat
              = build_filt None cat min_price max_price feat"
    by (simp add: build_filt_def truthy_def)
  have fc: "build_filt q (Some []) min_price max_price feat
              = build_filt q None min_price max_price feat"
    by (simp add: build_filt_def truthy_def)
  have "f_or (build_filt None cat min_price max_price feat) = None"
    and "f_category (build_filt q None min_price max_price feat) = None"
    by (simp_all add: build_filt_def truthy_def)
  then show ?thesis
    by (simp add: list_products_def fq fc cong: option.case_cong)
qed

theorem list_products_empty_string_absent_witness:
  "list_products sample_regex (Some seeded_store) (Some '''') None None None None None 50
     = list_products sample_regex (Some seeded_store) None None None None None None 50
   \<and> list_products sample_regex (Some seeded_store) None (Some '''') None None None None 50
     = list_products sample_regex (Some seeded_store) None None None None None None 50"
  using list_products_empty_string_absent [of sample_regex "Some seeded_store" None None None
      None None 50 None]
  by simp

end
